theory Spec2Isabelle
  imports Complex_Main "HOL-Library.Option_ord"
begin

section \<open>Data model\<close>

text \<open>
  The pipeline works on pandas DataFrames. A frame is modelled row-wise, as the list of
  its rows in index order; a cell that pandas holds as NaN (a missing CSV field) is
  \<open>None\<close>. A float64 cell is a real number or NaN: rounding is not modelled, and a
  non-finite result of an arithmetic expression (NaN, inf) is \<open>None\<close> as well.
\<close>

type_synonym fval = "real option"

text \<open>
  A row of ratings.csv (\<open>userId, movieId, rating, timestamp\<close>). A frame without the
  optional timestamp column is one whose \<open>timestamp\<close> cells are all \<open>None\<close>.
\<close>

record rating_row =
  userId :: "int option"
  r_movieId :: "int option"
  rating :: fval
  timestamp :: "int option"

section \<open>Rating cleaner (Scripts/build_db.py, analysis.py: clean_ratings)\<close>

text \<open>\<open>DataFrame.dropna(how="all")\<close>: drop the rows in which every cell is NaN.\<close>

definition all_na :: "rating_row \<Rightarrow> bool" where
  "all_na r \<longleftrightarrow> userId r = None \<and> r_movieId r = None \<and> rating r = None \<and> timestamp r = None"

definition dropna_all :: "rating_row list \<Rightarrow> rating_row list" where
  "dropna_all rs = filter (\<lambda>r. \<not> all_na r) rs"

text \<open>
  \<open>DataFrame.drop_duplicates(subset)\<close> with the default \<open>keep="first"\<close>: of the rows
  that agree on the key columns the first one stays, in its place. pandas takes two NaN
  cells for equal here, as \<open>None = None\<close> does.
\<close>

fun drop_duplicates_by :: "('a \<Rightarrow> 'k) \<Rightarrow> 'a list \<Rightarrow> 'a list" where
  "drop_duplicates_by key [] = []"
| "drop_duplicates_by key (x # xs) =
     x # drop_duplicates_by key (filter (\<lambda>y. key y \<noteq> key x) xs)"

definition drop_duplicates :: "'a list \<Rightarrow> 'a list" where
  "drop_duplicates xs = drop_duplicates_by (\<lambda>x. x) xs"

text \<open>\<open>dropna(subset=["userId", "movieId", "rating"])\<close>: drop a row if any of the three is NaN.\<close>

definition any_na_required :: "rating_row \<Rightarrow> bool" where
  "any_na_required r \<longleftrightarrow> userId r = None \<or> r_movieId r = None \<or> rating r = None"

definition dropna_subset :: "rating_row list \<Rightarrow> rating_row list" where
  "dropna_subset rs = filter (\<lambda>r. \<not> any_na_required r) rs"

text \<open>
  The boolean mask \<open>(rating >= 0.5) & (rating <= 5.0)\<close>: a comparison with NaN is False.
\<close>

definition rating_in_range :: "rating_row \<Rightarrow> bool" where
  "rating_in_range r = (case rating r of None \<Rightarrow> False | Some x \<Rightarrow> 1 / 2 \<le> x \<and> x \<le> 5)"

definition clean_ratings :: "rating_row list \<Rightarrow> rating_row list" where
  "clean_ratings ratings =
     (let ratings = drop_duplicates (dropna_all ratings);
          ratings = dropna_subset ratings;
          ratings = filter rating_in_range ratings
      in ratings)"

text \<open>
  analysis.py has the same function with a log line \<open>[Clean] ratings rows: before -> after\<close>;
  the printed pair of row counts is returned beside the frame.
\<close>

definition clean_ratings_analysis :: "rating_row list \<Rightarrow> rating_row list \<times> (nat \<times> nat)" where
  "clean_ratings_analysis ratings =
     (let before = length ratings;
          ratings = drop_duplicates (dropna_all ratings);
          ratings = dropna_subset ratings;
          ratings = filter rating_in_range ratings;
          after = length ratings
      in (ratings, (before, after)))"

section \<open>Movie statistics (Scripts/build_db.py, main.py: build_movie_stats)\<close>

record movie_stats =
  s_movieId :: int
  rating_count :: int
  avg_rating :: fval

text \<open>\<open>Series.count()\<close> counts the cells that are not NaN.\<close>

definition series_count :: "fval list \<Rightarrow> int" where
  "series_count xs = int (length (filter (\<lambda>x. x \<noteq> None) xs))"

text \<open>
  \<open>Series.mean()\<close> skips NaN cells (\<open>skipna=True\<close>) and is NaN when no cell is left,
  in particular on an empty series; it raises nothing.
\<close>

definition series_mean :: "fval list \<Rightarrow> fval" where
  "series_mean xs =
     (let vs = List.map_filter (\<lambda>x. x) xs
      in if vs = [] then None else Some (sum_list vs / real (length vs)))"

text \<open>
  \<open>groupby("movieId")\<close> drops the rows whose key is NaN and orders the groups by key;
  \<open>reset_index()\<close> makes the key a column again.
\<close>

definition group_keys :: "rating_row list \<Rightarrow> int list" where
  "group_keys ratings = sort (remdups (List.map_filter r_movieId ratings))"

definition build_movie_stats :: "rating_row list \<Rightarrow> movie_stats list" where
  "build_movie_stats ratings =
     map (\<lambda>k. let g = map rating (filter (\<lambda>r. r_movieId r = Some k) ratings)
              in \<lparr>s_movieId = k, rating_count = series_count g, avg_rating = series_mean g\<rparr>)
       (group_keys ratings)"

section \<open>Bayesian scorer (Scripts/build_db.py, main.py: bayesian_weighted)\<close>

record scored_movie = movie_stats +
  weighted_rating :: fval

text \<open>
  One cell of the expression
  \<open>(rating_count / (rating_count + m)) * avg_rating + (m / (rating_count + m)) * C\<close>
  for a row with count \<open>n\<close> and average \<open>a\<close>. pandas divides int64 by int64 as floats
  and raises nothing on a zero divisor: the quotient is inf or NaN, and so is the sum; a
  NaN average or a NaN \<open>C\<close> makes the cell NaN.
\<close>

definition weighted_value :: "int \<Rightarrow> fval \<Rightarrow> int \<Rightarrow> fval \<Rightarrow> fval" where
  "weighted_value n a m C =
     (case (a, C) of
        (Some a', Some c) \<Rightarrow>
          if n + m = 0 then None
          else Some ((of_int n / of_int (n + m)) * a' + (of_int m / of_int (n + m)) * c)
      | _ \<Rightarrow> None)"

text \<open>
  The function assigns a column of the frame object it was given and returns that same
  object. Frame objects live in a store; a frame either has the \<open>weighted_rating\<close> column
  or not, and assigning an existing column overwrites it.
\<close>

datatype frame = Stats "movie_stats list" | Scored "scored_movie list"

type_synonym ref = nat

type_synonym store = "ref \<Rightarrow> frame"

fun stats_rows :: "frame \<Rightarrow> movie_stats list" where
  "stats_rows (Stats rs) = rs"
| "stats_rows (Scored rs) =
     map (\<lambda>r. \<lparr>s_movieId = s_movieId r, rating_count = rating_count r, avg_rating = avg_rating r\<rparr>) rs"

definition set_weighted_rating :: "movie_stats \<Rightarrow> fval \<Rightarrow> scored_movie" where
  "set_weighted_rating r w =
     \<lparr>s_movieId = s_movieId r, rating_count = rating_count r, avg_rating = avg_rating r,
      weighted_rating = w\<rparr>"

definition bayesian_weighted :: "store \<Rightarrow> ref \<Rightarrow> int \<Rightarrow> ref \<times> store" where
  "bayesian_weighted h movie_stats m =
     (let rows = stats_rows (h movie_stats);
          C = series_mean (map avg_rating rows);
          col = map (\<lambda>r. weighted_value (rating_count r) (avg_rating r) m C) rows;
          h' = h(movie_stats := Scored (map2 set_weighted_rating rows col))
      in (movie_stats, h'))"

section \<open>Building the catalog (Scripts/build_db.py: main)\<close>

record movie_meta =
  m_movieId :: "int option"
  title :: "string option"
  genres :: "string option"

text \<open>
  \<open>stats.merge(movies, on="movieId", how="left")\<close>: every row of the left frame, in its
  order, with each right row of the same key, or with NaN in the right columns when
  there is none. A merged row is kept as the pair of its two projections
  \<open>[movieId, rating_count, avg_rating, weighted_rating]\<close> and \<open>[movieId, title, genres]\<close>.
\<close>

definition merge_left :: "scored_movie list \<Rightarrow> movie_meta list \<Rightarrow> (scored_movie \<times> movie_meta) list" where
  "merge_left stats movies =
     concat (map (\<lambda>s.
       case filter (\<lambda>m. m_movieId m = Some (s_movieId s)) movies of
         [] \<Rightarrow> [(s, \<lparr>m_movieId = Some (s_movieId s), title = None, genres = None\<rparr>)]
       | ms \<Rightarrow> map (\<lambda>m. (s, m)) ms) stats)"

datatype path = RATINGS_PATH | MOVIES_PATH | SCHEMA_PATH | DB_PATH

datatype error = FileNotFoundError path | KeyError string | OverflowError | RequestValidationError

text \<open>
  The files the script reads: a CSV file is absent or holds its rows (of movies.csv only
  the three columns the script selects); of schema.sql only its presence matters, since
  \<open>to_sql(if_exists="replace")\<close> drops and recreates both tables.
\<close>

record files =
  ratings_csv :: "rating_row list option"
  movies_csv :: "movie_meta list option"
  schema_sql :: bool

text \<open>The SQLite database: the tables \<open>movies\<close> and \<open>movie_scores\<close>.\<close>

record db =
  tbl_movies :: "movie_meta list"
  tbl_movie_scores :: "scored_movie list"

text \<open>
  \<open>main\<close>: the three existence checks in the script's order, then the pipeline. The
  frame of statistics is the object at reference 0 of a store that holds nothing else.
  Selecting the \<open>weighted_rating\<close> column of a frame that lacks it would raise KeyError.
  What the script prints (the OK line, the top-5 sample) is left out.
\<close>

definition main :: "files \<Rightarrow> error + db" where
  "main fs =
     (case ratings_csv fs of
        None \<Rightarrow> Inl (FileNotFoundError RATINGS_PATH)
      | Some ratings \<Rightarrow>
     (case movies_csv fs of
        None \<Rightarrow> Inl (FileNotFoundError MOVIES_PATH)
      | Some movies \<Rightarrow>
        if \<not> schema_sql fs then Inl (FileNotFoundError SCHEMA_PATH)
        else
          let ratings = clean_ratings ratings;
              stats = build_movie_stats ratings;
              (stats, h) = bayesian_weighted ((\<lambda>_. Stats []) (0 := Stats stats)) 0 1000;
              movies = drop_duplicates_by m_movieId movies
          in (case h stats of
                Stats _ \<Rightarrow> Inl (KeyError ''weighted_rating'')
              | Scored rows \<Rightarrow>
                  let merged = merge_left rows movies
                  in Inr \<lparr>tbl_movies = map snd merged, tbl_movie_scores = map fst merged\<rparr>)))"

section \<open>The query interface (app/main.py)\<close>

text \<open>
  Strings are ASCII here. \<open>str.lower()\<close> maps A..Z to a..z; \<open>str.strip()\<close> removes the
  leading and trailing whitespace characters (tab, line feed, vertical tab, form feed,
  carriage return, the separators 0x1C..0x1F and the space).
\<close>

definition lower_char :: "char \<Rightarrow> char" where
  "lower_char c =
     (case map_of (zip ''ABCDEFGHIJKLMNOPQRSTUVWXYZ'' ''abcdefghijklmnopqrstuvwxyz'') c of
        None \<Rightarrow> c
      | Some d \<Rightarrow> d)"

definition lower :: "string \<Rightarrow> string" where
  "lower s = map lower_char s"

definition isspace :: "char \<Rightarrow> bool" where
  "isspace c = (let n = (of_char c :: nat) in (9 \<le> n \<and> n \<le> 13) \<or> (28 \<le> n \<and> n \<le> 32))"

definition strip :: "string \<Rightarrow> string" where
  "strip s = rev (dropWhile isspace (rev (dropWhile isspace s)))"

text \<open>
  SQLite's \<open>X LIKE P\<close> (pattern first here): \<open>%\<close> matches any run of characters, \<open>_\<close>
  any one character, every other character itself, upper and lower case ASCII letters
  taken for equal. On a NULL operand the result is NULL, which a WHERE clause treats as
  false.
\<close>

fun sql_like :: "string \<Rightarrow> string \<Rightarrow> bool" where
  "sql_like [] [] = True"
| "sql_like [] (c # cs) = False"
| "sql_like (p # ps) [] = (p = CHR ''%'' \<and> sql_like ps [])"
| "sql_like (p # ps) (c # cs) =
     (if p = CHR ''%'' then sql_like ps (c # cs) \<or> sql_like (p # ps) cs
      else (p = CHR ''_'' \<or> lower_char p = lower_char c) \<and> sql_like ps cs)"

definition sql_like_null :: "string \<Rightarrow> string option \<Rightarrow> bool" where
  "sql_like_null pat x = (case x of None \<Rightarrow> False | Some t \<Rightarrow> sql_like pat t)"

text \<open>\<open>LIMIT n\<close>: the first \<open>n\<close> rows; SQLite puts no upper bound when \<open>n\<close> is negative.\<close>

definition sql_limit :: "int \<Rightarrow> 'a list \<Rightarrow> 'a list" where
  "sql_limit n rows = (if n < 0 then rows else take (nat n) rows)"

text \<open>
  \<open>ORDER BY key DESC\<close>: NULL sorts below every value, so it comes last, as \<open>None\<close> does
  in the order on \<open>option\<close>. SQL leaves the order of rows with equal keys open; here they
  keep the order they had.
\<close>

definition order_by_desc :: "('a \<Rightarrow> 'k::linorder) \<Rightarrow> 'a list \<Rightarrow> 'a list" where
  "order_by_desc key rows = rev (sort_key key (rev rows))"

text \<open>
  A parameter bound to a statement must fit SQLite's 64-bit INTEGER; the sqlite3 module
  raises OverflowError otherwise. A request that fails the declared validation of a
  parameter is answered with a RequestValidationError.
\<close>

definition fits_int64 :: "int \<Rightarrow> bool" where
  "fits_int64 n \<longleftrightarrow> - (2 ^ 63) \<le> n \<and> n < 2 ^ 63"

text \<open>\<open>get_conn\<close>: the database file is absent (\<open>None\<close>) or holds the two tables.\<close>

definition get_conn :: "db option \<Rightarrow> error + db" where
  "get_conn store = (case store of None \<Rightarrow> Inl (FileNotFoundError DB_PATH) | Some conn \<Rightarrow> Inr conn)"

text \<open>
  \<open>titles\<close>: the declared \<open>max_length=80\<close> rejects a longer query before the handler
  runs. The response \<open>{"items": [...]}\<close> is kept as the list of its rows.
\<close>

definition titles :: "db option \<Rightarrow> string \<Rightarrow> int \<Rightarrow> error + movie_meta list" where
  "titles store query limit =
     (if length query > 80 then Inl RequestValidationError
      else
        let q = ''%'' @ strip query @ ''%''
        in case get_conn store of
             Inl e \<Rightarrow> Inl e
           | Inr conn \<Rightarrow>
               if \<not> fits_int64 limit then Inl OverflowError
               else Inr (sql_limit limit (filter (\<lambda>m. sql_like_null q (title m)) (tbl_movies conn))))"

definition MOOD_TO_GENRES :: "(string \<times> string list) list" where
  "MOOD_TO_GENRES =
     [(''calm'', [''Drama'', ''Romance'']),
      (''fun'', [''Comedy'']),
      (''intense'', [''Action'', ''Thriller'']),
      (''sad'', [''Drama'']),
      (''inspire'', [''Adventure'', ''Animation''])]"

text \<open>
  \<open>FROM movie_scores s JOIN movies m ON m.movieId = s.movieId\<close>. A joined row, and an
  item of the response, is the pair of the score row and the movie row.
\<close>

type_synonym item = "scored_movie \<times> movie_meta"

definition join_scores_movies :: "db \<Rightarrow> item list" where
  "join_scores_movies conn =
     concat (map (\<lambda>s. map (\<lambda>m. (s, m))
                         (filter (\<lambda>m. m_movieId m = Some (s_movieId s)) (tbl_movies conn)))
                 (tbl_movie_scores conn))"

text \<open>\<open>SELECT ... WHERE cond ORDER BY s.weighted_rating DESC LIMIT k\<close> over the join.\<close>

definition select_ranked :: "db \<Rightarrow> (item \<Rightarrow> bool) \<Rightarrow> int \<Rightarrow> item list" where
  "select_ranked conn cond k =
     sql_limit k (order_by_desc (\<lambda>it. weighted_rating (fst it))
       (filter cond (join_scores_movies conn)))"

record response =
  resp_mood :: string
  resp_genres_filter :: "string list"
  resp_k :: int
  resp_min_count :: int
  resp_items :: "item list"

definition recommendations :: "db option \<Rightarrow> string \<Rightarrow> int \<Rightarrow> int \<Rightarrow> error + response" where
  "recommendations store mood k min_count =
     (let mood = strip (lower mood);
          gs = (case map_of MOOD_TO_GENRES mood of None \<Rightarrow> [] | Some gs \<Rightarrow> gs)
      in case get_conn store of
           Inl e \<Rightarrow> Inl e
         | Inr conn \<Rightarrow>
             if \<not> (fits_int64 min_count \<and> fits_int64 k) then Inl OverflowError
             else
               let rows =
                 (if gs = [] then
                    select_ranked conn (\<lambda>it. min_count \<le> rating_count (fst it)) k
                  else
                    select_ranked conn
                      (\<lambda>it. min_count \<le> rating_count (fst it) \<and>
                            list_ex (\<lambda>g. sql_like_null (''%'' @ g @ ''%'') (genres (snd it))) gs) k)
               in Inr \<lparr>resp_mood = mood, resp_genres_filter = gs, resp_k = k,
                        resp_min_count = min_count, resp_items = rows\<rparr>)"

section \<open>Properties of the cleaner\<close>

lemma set_drop_duplicates_by: "set (drop_duplicates_by key xs) \<subseteq> set xs"
proof (induction key xs rule: drop_duplicates_by.induct)
  case (1 key)
  show ?case by simp
next
  case (2 key x xs)
  then show ?case by auto
qed

lemma distinct_keys_drop_duplicates_by: "distinct (map key (drop_duplicates_by key xs))"
proof (induction key xs rule: drop_duplicates_by.induct)
  case (1 key)
  show ?case by simp
next
  case (2 key x xs)
  have "set (drop_duplicates_by key (filter (\<lambda>y. key y \<noteq> key x) xs))
          \<subseteq> set (filter (\<lambda>y. key y \<noteq> key x) xs)"
    by (rule set_drop_duplicates_by)
  then have "key x \<notin> key ` set (drop_duplicates_by key (filter (\<lambda>y. key y \<noteq> key x) xs))"
    by auto
  with 2 show ?case by simp
qed

lemma drop_duplicates_by_distinct:
  "distinct (map key xs) \<Longrightarrow> drop_duplicates_by key xs = xs"
proof (induction xs)
  case Nil
  show ?case by simp
next
  case (Cons x xs)
  from Cons.prems have "key x \<notin> key ` set xs"
    by simp
  then have "\<forall>y\<in>set xs. key y \<noteq> key x"
    by (metis imageI)
  then have "filter (\<lambda>y. key y \<noteq> key x) xs = xs"
    by (simp add: filter_id_conv)
  with Cons show ?case by simp
qed

lemma set_clean_ratings: "set (clean_ratings X) \<subseteq> set X"
proof -
  have "set (drop_duplicates (dropna_all X)) \<subseteq> set X"
    using set_drop_duplicates_by [of "\<lambda>x. x" "dropna_all X"]
    by (auto simp: drop_duplicates_def dropna_all_def)
  then show ?thesis
    by (auto simp: clean_ratings_def dropna_subset_def)
qed

lemma distinct_clean_ratings: "distinct (clean_ratings X)"
proof -
  have "distinct (drop_duplicates (dropna_all X))"
    using distinct_keys_drop_duplicates_by [of "\<lambda>x. x" "dropna_all X"]
    by (simp add: drop_duplicates_def)
  then show ?thesis
    by (simp add: clean_ratings_def dropna_subset_def)
qed

lemma clean_ratings_rows:
  assumes "r \<in> set (clean_ratings X)"
  shows "\<not> all_na r" and "\<not> any_na_required r" and "rating_in_range r"
proof -
  from assms show "rating_in_range r" and na: "\<not> any_na_required r"
    by (auto simp: clean_ratings_def dropna_subset_def)
  from na show "\<not> all_na r"
    by (auto simp: all_na_def any_na_required_def)
qed

lemma clean_ratings_analysis_frame: "fst (clean_ratings_analysis X) = clean_ratings X"
  by (simp add: clean_ratings_analysis_def clean_ratings_def Let_def)

text \<open>
  C6. Cleaning is a pure filter: every row of the cleaned frame is a row of the input,
  with every field as it was (the rows are records, so membership is equality on all four
  cells). The same holds for the frame returned by the variant in analysis.py.
\<close>

theorem clean_ratings_is_filter:
  "set (clean_ratings X) \<subseteq> set X \<and> set (fst (clean_ratings_analysis X)) \<subseteq> set X"
  by (simp add: clean_ratings_analysis_frame set_clean_ratings)

text \<open>
  C7. Cleaning is idempotent: cleaning a cleaned frame gives the same frame back.
\<close>

theorem clean_ratings_idempotent: "clean_ratings (clean_ratings X) = clean_ratings X"
proof -
  let ?Y = "clean_ratings X"
  have 1: "dropna_all ?Y = ?Y"
    by (auto simp: dropna_all_def filter_id_conv dest: clean_ratings_rows(1))
  have 2: "drop_duplicates ?Y = ?Y"
    using drop_duplicates_by_distinct [of "\<lambda>x. x" ?Y] distinct_clean_ratings [of X]
    by (simp add: drop_duplicates_def)
  have 3: "dropna_subset ?Y = ?Y"
    by (auto simp: dropna_subset_def filter_id_conv dest: clean_ratings_rows(2))
  have 4: "filter rating_in_range ?Y = ?Y"
    by (auto simp: filter_id_conv dest: clean_ratings_rows(3))
  have "clean_ratings ?Y = filter rating_in_range (dropna_subset (drop_duplicates (dropna_all ?Y)))"
    by (simp add: clean_ratings_def)
  also have "\<dots> = ?Y"
    by (simp add: 1 2 3 4)
  finally show ?thesis .
qed

section \<open>Properties of the scorer\<close>





lemma series_mean_Nil: "series_mean [] = None"
  by (simp add: series_mean_def map_filter_def)

lemma bayesian_weighted_result:
  "bayesian_weighted h p m =
     (p, h(p := Scored (map (\<lambda>r. set_weighted_rating r
            (weighted_value (rating_count r) (avg_rating r) m
               (series_mean (map avg_rating (stats_rows (h p))))))
          (stats_rows (h p)))))"
  by (simp add: bayesian_weighted_def Let_def zip_map2 zip_same_conv_map comp_def)

lemma movie_stats_eta:
  "\<lparr>s_movieId = s_movieId x, rating_count = rating_count x, avg_rating = avg_rating x\<rparr>
     = (x :: movie_stats)"
  by (cases x) simp

lemma stats_rows_set_weighted:
  "stats_rows (Scored (map (\<lambda>r. set_weighted_rating r (f r)) rs)) = rs"
  by (simp add: set_weighted_rating_def comp_def movie_stats_eta)



text \<open>
  C1, as the code has it. The scorer raises nothing on an empty frame: the mean of the
  empty \<open>avg_rating\<close> column is NaN, no row is there to carry it, and the frame comes back
  with an empty \<open>weighted_rating\<close> column. (The claim asks for an EmptyInputError, which
  the code does not have.)
\<close>

theorem bayesian_weighted_empty:
  assumes "stats_rows (h p) = []"
  shows "bayesian_weighted h p m = (p, h(p := Scored [])) \<and>
         series_mean (map avg_rating (stats_rows (h p))) = None"
  using assms by (simp add: bayesian_weighted_result series_mean_Nil)

theorem bayesian_weighted_empty_witness:
  "stats_rows ((\<lambda>_::nat. Stats []) (3::nat)) = [] \<and>
   bayesian_weighted (\<lambda>_::nat. Stats []) 3 500 = (3, (\<lambda>_::nat. Stats [])(3 := Scored [])) \<and>
   series_mean (map avg_rating (stats_rows ((\<lambda>_::nat. Stats []) (3::nat)))) = None"
  using bayesian_weighted_empty [of "\<lambda>_. Stats []" 3 500] by simp

text \<open>
  The claim C1 fails at the empty frame with \<open>m = 1000\<close>: the call returns, and the whole
  build on an empty ratings.csv returns a database with two empty tables.
\<close>

theorem bayesian_weighted_empty_returns:
  "bayesian_weighted (\<lambda>_::nat. Stats []) 0 1000 = (0, (\<lambda>_::nat. Stats [])(0 := Scored [])) \<and>
   main \<lparr>ratings_csv = Some [], movies_csv = Some [], schema_sql = True\<rparr>
     = Inr \<lparr>tbl_movies = [], tbl_movie_scores = []\<rparr>"
  by (simp add: bayesian_weighted_result main_def clean_ratings_def drop_duplicates_def
      dropna_all_def dropna_subset_def build_movie_stats_def group_keys_def map_filter_def
      merge_left_def)





text \<open>
  C9. The scorer works in place: it returns the reference it was given; the frame behind
  that reference now has the \<open>weighted_rating\<close> column; its \<open>movieId\<close>, \<open>rating_count\<close>
  and \<open>avg_rating\<close> columns and the order of its rows are as before; and no other frame
  of the store changes.
\<close>

theorem bayesian_weighted_in_place:
  assumes "bayesian_weighted h p m = (p', h')"
  shows "p' = p \<and>
         (\<exists>rows. h' p = Scored rows \<and>
            map s_movieId rows = map s_movieId (stats_rows (h p)) \<and>
            map rating_count rows = map rating_count (stats_rows (h p)) \<and>
            map avg_rating rows = map avg_rating (stats_rows (h p))) \<and>
         stats_rows (h' p) = stats_rows (h p) \<and>
         (\<forall>q. q \<noteq> p \<longrightarrow> h' q = h q)"
proof -
  let ?rows = "map (\<lambda>r. set_weighted_rating r
            (weighted_value (rating_count r) (avg_rating r) m
               (series_mean (map avg_rating (stats_rows (h p))))))
          (stats_rows (h p))"
  from assms have eq: "(p, h(p := Scored ?rows)) = (p', h')"
    by (simp only: bayesian_weighted_result)
  have p: "p' = p"
    using eq by (metis fst_conv)
  have h: "h' = h(p := Scored ?rows)"
    using eq by (metis snd_conv)
  have 1: "h' p = Scored ?rows" by (simp add: h)
  have 2: "map s_movieId ?rows = map s_movieId (stats_rows (h p))"
    "map rating_count ?rows = map rating_count (stats_rows (h p))"
    "map avg_rating ?rows = map avg_rating (stats_rows (h p))"
    by (simp_all add: set_weighted_rating_def comp_def)
  have 3: "stats_rows (h' p) = stats_rows (h p)"
    unfolding 1 by (rule stats_rows_set_weighted)
  have 4: "\<forall>q. q \<noteq> p \<longrightarrow> h' q = h q" by (simp add: h)
  from p 1 2 3 4 show ?thesis by blast
qed

theorem bayesian_weighted_in_place_witness:
  "bayesian_weighted ((\<lambda>_::nat. Stats []) (0 := Stats
      [\<lparr>s_movieId = 1, rating_count = 2, avg_rating = Some 5\<rparr>])) 0 1000
     = (0, (\<lambda>_::nat. Stats []) (0 := Scored
      [\<lparr>s_movieId = 1, rating_count = 2, avg_rating = Some 5, weighted_rating = Some 5\<rparr>])) \<and>
   stats_rows (((\<lambda>_::nat. Stats []) (0 := Scored
      [\<lparr>s_movieId = 1, rating_count = 2, avg_rating = Some 5, weighted_rating = Some 5\<rparr>])) (0::nat))
     = stats_rows (((\<lambda>_::nat. Stats []) (0 := Stats
      [\<lparr>s_movieId = 1, rating_count = 2, avg_rating = Some 5\<rparr>])) (0::nat)) \<and>
   ((\<lambda>_::nat. Stats []) (0 := Scored
      [\<lparr>s_movieId = 1, rating_count = 2, avg_rating = Some 5, weighted_rating = Some 5\<rparr>])) (7::nat)
     = ((\<lambda>_::nat. Stats []) (0 := Stats
      [\<lparr>s_movieId = 1, rating_count = 2, avg_rating = Some 5\<rparr>])) 7"
proof -
  have run: "bayesian_weighted ((\<lambda>_::nat. Stats []) (0 := Stats
      [\<lparr>s_movieId = 1, rating_count = 2, avg_rating = Some 5\<rparr>])) 0 1000
     = (0, (\<lambda>_::nat. Stats []) (0 := Scored
      [\<lparr>s_movieId = 1, rating_count = 2, avg_rating = Some 5, weighted_rating = Some 5\<rparr>]))"
    by (simp add: bayesian_weighted_result series_mean_def map_filter_def
        set_weighted_rating_def weighted_value_def)
  from bayesian_weighted_in_place [OF run] run show ?thesis by simp
qed

section \<open>The formula and the documented scenario\<close>

lemma map_filter_all_Some:
  "\<forall>x\<in>set xs. x \<noteq> None \<Longrightarrow> List.map_filter (\<lambda>x. x) xs = map the xs"
  by (induction xs) (auto simp: map_filter_simps)

lemma series_mean_all_Some:
  assumes "xs \<noteq> []" and "\<forall>x\<in>set xs. x \<noteq> None"
  shows "series_mean xs = Some (sum_list (map the xs) / real (length xs))"
  using assms by (simp add: series_mean_def map_filter_all_Some)

text \<open>
  C4. On a non-empty frame whose averages are numbers (and whose counts are not \<open>-m\<close>),
  \<open>C\<close> is the plain mean of the \<open>avg_rating\<close> column, one term per movie whatever its
  count, and each row gets
  \<open>(rating_count / (rating_count + m)) * avg_rating + (m / (rating_count + m)) * C\<close>.
  The scenario: the ratings (u1, m1, 5.0), (u2, m1, 5.0), (u3, m2, 1.0) give the
  statistics (m1, 2, 5.0) and (m2, 1, 1.0), \<open>C = 3\<close> (the mean over the three ratings
  would be 11/3), and the build writes the weighted ratings 1505/501 for m1 and
  3001/1001 for m2, which are 3.004 and 2.998 to three decimals.
\<close>

theorem bayesian_weighted_formula:
  "(\<forall>h p m stats.
      stats_rows (h p) = stats \<and> stats \<noteq> [] \<and>
      (\<forall>r\<in>set stats. avg_rating r \<noteq> None \<and> rating_count r + m \<noteq> 0) \<longrightarrow>
      (let C = sum_list (map (\<lambda>r. the (avg_rating r)) stats) / real (length stats)
       in series_mean (map avg_rating stats) = Some C \<and>
          snd (bayesian_weighted h p m) p =
            Scored (map (\<lambda>r. set_weighted_rating r
              (Some ((of_int (rating_count r) / of_int (rating_count r + m)) * the (avg_rating r)
                     + (of_int m / of_int (rating_count r + m)) * C))) stats))) \<and>
   build_movie_stats (clean_ratings
     [\<lparr>userId = Some 1, r_movieId = Some 1, rating = Some 5, timestamp = None\<rparr>,
      \<lparr>userId = Some 2, r_movieId = Some 1, rating = Some 5, timestamp = None\<rparr>,
      \<lparr>userId = Some 3, r_movieId = Some 2, rating = Some 1, timestamp = None\<rparr>])
     = [\<lparr>s_movieId = 1, rating_count = 2, avg_rating = Some 5\<rparr>,
        \<lparr>s_movieId = 2, rating_count = 1, avg_rating = Some 1\<rparr>] \<and>
   series_mean (map avg_rating
       [\<lparr>s_movieId = 1, rating_count = 2, avg_rating = Some 5\<rparr>,
        \<lparr>s_movieId = 2, rating_count = 1, avg_rating = Some 1\<rparr>]) = Some 3 \<and>
   main \<lparr>ratings_csv = Some
     [\<lparr>userId = Some 1, r_movieId = Some 1, rating = Some 5, timestamp = None\<rparr>,
      \<lparr>userId = Some 2, r_movieId = Some 1, rating = Some 5, timestamp = None\<rparr>,
      \<lparr>userId = Some 3, r_movieId = Some 2, rating = Some 1, timestamp = None\<rparr>],
     movies_csv = Some [], schema_sql = True\<rparr>
   = Inr \<lparr>tbl_movies = [\<lparr>m_movieId = Some 1, title = None, genres = None\<rparr>,
                          \<lparr>m_movieId = Some 2, title = None, genres = None\<rparr>],
           tbl_movie_scores =
             [\<lparr>s_movieId = 1, rating_count = 2, avg_rating = Some 5, weighted_rating = Some (1505 / 501)\<rparr>,
              \<lparr>s_movieId = 2, rating_count = 1, avg_rating = Some 1, weighted_rating = Some (3001 / 1001)\<rparr>]\<rparr> \<and>
   \<bar>1505 / 501 - 3004 / 1000\<bar> < (1 / 2000 :: real) \<and>
   \<bar>3001 / 1001 - 2998 / 1000\<bar> < (1 / 2000 :: real)"
proof -
  have general: "series_mean (map avg_rating stats) = Some C \<and>
          snd (bayesian_weighted h p m) p =
            Scored (map (\<lambda>r. set_weighted_rating r
              (Some ((of_int (rating_count r) / of_int (rating_count r + m)) * the (avg_rating r)
                     + (of_int m / of_int (rating_count r + m)) * C))) stats)"
    if st: "stats_rows (h p) = stats" and ne: "stats \<noteq> []"
      and ok: "\<forall>r\<in>set stats. avg_rating r \<noteq> None \<and> rating_count r + m \<noteq> 0"
      and C: "C = sum_list (map (\<lambda>r. the (avg_rating r)) stats) / real (length stats)"
    for h p m stats C
  proof -
    have mean: "series_mean (map avg_rating stats) = Some C"
      using series_mean_all_Some [of "map avg_rating stats"] ne ok
      by (simp add: C comp_def)
    have cell: "weighted_value (rating_count r) (avg_rating r) m (Some C) =
        Some ((of_int (rating_count r) / of_int (rating_count r + m)) * the (avg_rating r)
                     + (of_int m / of_int (rating_count r + m)) * C)"
      if "r \<in> set stats" for r
      using ok that by (auto simp: weighted_value_def)
    have "snd (bayesian_weighted h p m) p =
        Scored (map (\<lambda>r. set_weighted_rating r
          (weighted_value (rating_count r) (avg_rating r) m (Some C))) stats)"
      by (simp add: bayesian_weighted_result st mean)
    also have "\<dots> = Scored (map (\<lambda>r. set_weighted_rating r
              (Some ((of_int (rating_count r) / of_int (rating_count r + m)) * the (avg_rating r)
                     + (of_int m / of_int (rating_count r + m)) * C))) stats)"
      using cell by simp
    finally show ?thesis using mean by simp
  qed
  have clean: "clean_ratings
     [\<lparr>userId = Some 1, r_movieId = Some 1, rating = Some 5, timestamp = None\<rparr>,
      \<lparr>userId = Some 2, r_movieId = Some 1, rating = Some 5, timestamp = None\<rparr>,
      \<lparr>userId = Some 3, r_movieId = Some 2, rating = Some 1, timestamp = None\<rparr>]
   = [\<lparr>userId = Some 1, r_movieId = Some 1, rating = Some 5, timestamp = None\<rparr>,
      \<lparr>userId = Some 2, r_movieId = Some 1, rating = Some 5, timestamp = None\<rparr>,
      \<lparr>userId = Some 3, r_movieId = Some 2, rating = Some 1, timestamp = None\<rparr>]"
    by (simp add: clean_ratings_def drop_duplicates_def dropna_all_def dropna_subset_def
        all_na_def any_na_required_def rating_in_range_def)
  have stats: "build_movie_stats
     [\<lparr>userId = Some 1, r_movieId = Some 1, rating = Some 5, timestamp = None\<rparr>,
      \<lparr>userId = Some 2, r_movieId = Some 1, rating = Some 5, timestamp = None\<rparr>,
      \<lparr>userId = Some 3, r_movieId = Some 2, rating = Some 1, timestamp = None\<rparr>]
   = [\<lparr>s_movieId = 1, rating_count = 2, avg_rating = Some 5\<rparr>,
      \<lparr>s_movieId = 2, rating_count = 1, avg_rating = Some 1\<rparr>]"
    by (simp add: build_movie_stats_def group_keys_def series_count_def series_mean_def
        map_filter_def)
  have mean3: "series_mean (map avg_rating
       [\<lparr>s_movieId = 1, rating_count = 2, avg_rating = Some 5\<rparr>,
        \<lparr>s_movieId = 2, rating_count = 1, avg_rating = Some 1\<rparr>]) = Some 3"
    by (simp add: series_mean_def map_filter_def)
  have run: "main \<lparr>ratings_csv = Some
     [\<lparr>userId = Some 1, r_movieId = Some 1, rating = Some 5, timestamp = None\<rparr>,
      \<lparr>userId = Some 2, r_movieId = Some 1, rating = Some 5, timestamp = None\<rparr>,
      \<lparr>userId = Some 3, r_movieId = Some 2, rating = Some 1, timestamp = None\<rparr>],
     movies_csv = Some [], schema_sql = True\<rparr>
   = Inr \<lparr>tbl_movies = [\<lparr>m_movieId = Some 1, title = None, genres = None\<rparr>,
                          \<lparr>m_movieId = Some 2, title = None, genres = None\<rparr>],
           tbl_movie_scores =
             [\<lparr>s_movieId = 1, rating_count = 2, avg_rating = Some 5, weighted_rating = Some (1505 / 501)\<rparr>,
              \<lparr>s_movieId = 2, rating_count = 1, avg_rating = Some 1, weighted_rating = Some (3001 / 1001)\<rparr>]\<rparr>"
    by (simp add: main_def clean stats bayesian_weighted_result series_mean_def map_filter_def
        set_weighted_rating_def weighted_value_def merge_left_def)
  have approx: "\<bar>1505 / 501 - 3004 / 1000\<bar> < (1 / 2000 :: real)"
    "\<bar>3001 / 1001 - 2998 / 1000\<bar> < (1 / 2000 :: real)"
    by simp_all
  from general have g: "\<forall>h p m stats.
      stats_rows (h p) = stats \<and> stats \<noteq> [] \<and>
      (\<forall>r\<in>set stats. avg_rating r \<noteq> None \<and> rating_count r + m \<noteq> 0) \<longrightarrow>
      (let C = sum_list (map (\<lambda>r. the (avg_rating r)) stats) / real (length stats)
       in series_mean (map avg_rating stats) = Some C \<and>
          snd (bayesian_weighted h p m) p =
            Scored (map (\<lambda>r. set_weighted_rating r
              (Some ((of_int (rating_count r) / of_int (rating_count r + m)) * the (avg_rating r)
                     + (of_int m / of_int (rating_count r + m)) * C))) stats))"
    unfolding Let_def by blast
  show ?thesis
    using g clean stats mean3 run approx by (simp only: simp_thms)
qed

theorem bayesian_weighted_formula_witness:
  "stats_rows (((\<lambda>_::nat. Stats []) (0 := Stats
      [\<lparr>s_movieId = 1, rating_count = 2, avg_rating = Some 5\<rparr>,
       \<lparr>s_movieId = 2, rating_count = 1, avg_rating = Some 1\<rparr>])) 0)
     = [\<lparr>s_movieId = 1, rating_count = 2, avg_rating = Some 5\<rparr>,
        \<lparr>s_movieId = 2, rating_count = 1, avg_rating = Some 1\<rparr>] \<and>
   series_mean (map avg_rating
       [\<lparr>s_movieId = 1, rating_count = 2, avg_rating = Some 5\<rparr>,
        \<lparr>s_movieId = 2, rating_count = 1, avg_rating = Some 1\<rparr>]) = Some ((5 + 1) / 2) \<and>
   snd (bayesian_weighted ((\<lambda>_::nat. Stats []) (0 := Stats
      [\<lparr>s_movieId = 1, rating_count = 2, avg_rating = Some 5\<rparr>,
       \<lparr>s_movieId = 2, rating_count = 1, avg_rating = Some 1\<rparr>])) 0 1000) 0
     = Scored
      [\<lparr>s_movieId = 1, rating_count = 2, avg_rating = Some 5,
        weighted_rating = Some ((2 / 1002) * 5 + (1000 / 1002) * ((5 + 1) / 2))\<rparr>,
       \<lparr>s_movieId = 2, rating_count = 1, avg_rating = Some 1,
        weighted_rating = Some ((1 / 1001) * 1 + (1000 / 1001) * ((5 + 1) / 2))\<rparr>]"
  using bayesian_weighted_formula [THEN conjunct1, rule_format, of
      "(\<lambda>_::nat. Stats []) (0 := Stats
      [\<lparr>s_movieId = 1, rating_count = 2, avg_rating = Some 5\<rparr>,
       \<lparr>s_movieId = 2, rating_count = 1, avg_rating = Some 1\<rparr>])" 0
      "[\<lparr>s_movieId = 1, rating_count = 2, avg_rating = Some 5\<rparr>,
        \<lparr>s_movieId = 2, rating_count = 1, avg_rating = Some 1\<rparr>]" 1000]
  by (simp add: set_weighted_rating_def)

section \<open>Properties of the catalog build\<close>

lemma filter_key_distinct:
  "distinct (map key xs) \<Longrightarrow> filter (\<lambda>x. key x = k) xs = [] \<or> (\<exists>x. filter (\<lambda>x. key x = k) xs = [x])"
proof (induction xs)
  case Nil
  show ?case by simp
next
  case (Cons x xs)
  show ?case
  proof (cases "key x = k")
    case True
    with Cons.prems have "\<forall>y\<in>set xs. key y \<noteq> k"
      by (metis distinct.simps(2) imageI list.simps(9) list.set_map)
    then have "filter (\<lambda>x. key x = k) xs = []"
      by (simp add: filter_empty_conv)
    with True show ?thesis by simp
  next
    case False
    with Cons show ?thesis by simp
  qed
qed

lemma find_filter_implied:
  "(\<And>x. P x \<Longrightarrow> Q x) \<Longrightarrow> find P (filter Q xs) = find P xs"
  by (induction xs) auto

lemma find_drop_duplicates_by:
  "find (\<lambda>x. key x = k) (drop_duplicates_by key xs) = find (\<lambda>x. key x = k) xs"
proof (induction key xs rule: drop_duplicates_by.induct)
  case (1 key)
  show ?case by simp
next
  case (2 key x xs)
  show ?case
  proof (cases "key x = k")
    case True
    then show ?thesis by simp
  next
    case False
    then have "find (\<lambda>y. key y = k) (filter (\<lambda>y. key y \<noteq> key x) xs) = find (\<lambda>y. key y = k) xs"
      by (intro find_filter_implied) auto
    with 2 False show ?thesis by simp
  qed
qed

lemma find_distinct_member:
  "distinct (map key xs) \<Longrightarrow> x \<in> set xs \<Longrightarrow> find (\<lambda>y. key y = key x) xs = Some x"
proof (induction xs)
  case Nil
  then show ?case by simp
next
  case (Cons y ys)
  show ?case
  proof (cases "x = y")
    case True
    then show ?thesis by simp
  next
    case False
    with Cons.prems have "x \<in> set ys" by simp
    moreover from this Cons.prems have "key y \<noteq> key x"
      by (metis distinct.simps(2) imageI list.simps(9) list.set_map)
    ultimately show ?thesis using Cons by simp
  qed
qed

lemma merge_left_member:
  assumes "(s, row) \<in> set (merge_left stats movies)"
  shows "s \<in> set stats \<and> m_movieId row = Some (s_movieId s) \<and>
         (row \<in> set movies \<or>
          (title row = None \<and> genres row = None \<and>
           (\<forall>m\<in>set movies. m_movieId m \<noteq> Some (s_movieId s))))"
proof -
  from assms obtain s' where s': "s' \<in> set stats"
    and mem: "(s, row) \<in> set (case filter (\<lambda>m. m_movieId m = Some (s_movieId s')) movies of
         [] \<Rightarrow> [(s', \<lparr>m_movieId = Some (s_movieId s'), title = None, genres = None\<rparr>)]
       | ms \<Rightarrow> map (\<lambda>m. (s', m)) ms)"
    by (auto simp: merge_left_def)
  show ?thesis
  proof (cases "filter (\<lambda>m. m_movieId m = Some (s_movieId s')) movies")
    case Nil
    with mem have "s = s'" and "row = \<lparr>m_movieId = Some (s_movieId s'), title = None, genres = None\<rparr>"
      by simp_all
    moreover from Nil have "\<forall>m\<in>set movies. m_movieId m \<noteq> Some (s_movieId s')"
      by (simp add: filter_empty_conv)
    ultimately show ?thesis using s' by simp
  next
    case (Cons m ms)
    with mem have "s = s'" and "row \<in> set (filter (\<lambda>m. m_movieId m = Some (s_movieId s')) movies)"
      by auto
    then show ?thesis using s' by simp
  qed
qed

lemma merge_left_fst:
  assumes "distinct (map m_movieId movies)"
  shows "map fst (merge_left stats movies) = stats"
proof -
  have one: "map fst (case filter (\<lambda>m. m_movieId m = Some (s_movieId s)) movies of
         [] \<Rightarrow> [(s, \<lparr>m_movieId = Some (s_movieId s), title = None, genres = None\<rparr>)]
       | ms \<Rightarrow> map (\<lambda>m. (s, m)) ms) = [s]" for s
    using filter_key_distinct [OF assms, of "Some (s_movieId s)"]
    by (auto split: list.splits)
  show ?thesis
    by (induction stats) (simp_all add: merge_left_def one)
qed

lemma merge_left_keys:
  assumes "distinct (map m_movieId movies)"
  shows "map (\<lambda>p. m_movieId (snd p)) (merge_left stats movies) = map (\<lambda>s. Some (s_movieId s)) stats"
proof -
  have "map (\<lambda>p. m_movieId (snd p)) (merge_left stats movies)
        = map (\<lambda>p. Some (s_movieId (fst p))) (merge_left stats movies)"
    using merge_left_member by (intro map_cong) (auto simp: prod_eq_iff)
  also have "\<dots> = map (\<lambda>s. Some (s_movieId s)) (map fst (merge_left stats movies))"
    by (simp add: comp_def)
  finally show ?thesis by (simp add: merge_left_fst [OF assms])
qed

lemma main_Inr:
  assumes "main fs = Inr d"
  shows "\<exists>R M rows. ratings_csv fs = Some R \<and> movies_csv fs = Some M \<and>
           snd (bayesian_weighted ((\<lambda>_. Stats []) (0 := Stats (build_movie_stats (clean_ratings R)))) 0 1000) 0
             = Scored rows \<and>
           stats_rows (Scored rows) = build_movie_stats (clean_ratings R) \<and>
           tbl_movies d = map snd (merge_left rows (drop_duplicates_by m_movieId M)) \<and>
           tbl_movie_scores d = map fst (merge_left rows (drop_duplicates_by m_movieId M))"
proof -
  from assms obtain R M where R: "ratings_csv fs = Some R" and M: "movies_csv fs = Some M"
    by (auto simp: main_def split: option.splits if_splits)
  let ?h = "(\<lambda>_. Stats []) (0 := Stats (build_movie_stats (clean_ratings R)))"
  let ?rows = "map (\<lambda>r. set_weighted_rating r
            (weighted_value (rating_count r) (avg_rating r) 1000
               (series_mean (map avg_rating (build_movie_stats (clean_ratings R))))))
          (build_movie_stats (clean_ratings R))"
  have run: "bayesian_weighted ?h 0 1000 = (0, ?h(0 := Scored ?rows))"
    by (simp add: bayesian_weighted_result)
  from assms R M run
  have d: "d = \<lparr>tbl_movies = map snd (merge_left ?rows (drop_duplicates_by m_movieId M)),
                tbl_movie_scores = map fst (merge_left ?rows (drop_duplicates_by m_movieId M))\<rparr>"
    by (auto simp: main_def Let_def split: if_splits)
  have "snd (bayesian_weighted ?h 0 1000) 0 = Scored ?rows"
    by (simp add: run)
  moreover have "stats_rows (Scored ?rows) = build_movie_stats (clean_ratings R)"
    by (rule stats_rows_set_weighted)
  ultimately show ?thesis using R M d by auto
qed

text \<open>
  C2, as the code has it. The catalog is the left join of the scored statistics with the
  metadata, the statistics on the left: a successful build writes the scored rows
  unchanged into \<open>movie_scores\<close>, and one row per scored movie, in the same order, into
  \<open>movies\<close>; that row has null title and genres when movies.csv has no row of this
  movieId, and is the first row of movies.csv with this movieId otherwise. A movieId that
  only movies.csv has is not in the catalog.
\<close>

theorem catalog_left_join:
  assumes "main fs = Inr d"
  shows "\<exists>R M rows. ratings_csv fs = Some R \<and> movies_csv fs = Some M \<and>
           snd (bayesian_weighted ((\<lambda>_. Stats []) (0 := Stats (build_movie_stats (clean_ratings R)))) 0 1000) 0
             = Scored rows \<and>
           tbl_movie_scores d = rows \<and>
           map m_movieId (tbl_movies d) = map (\<lambda>s. Some (s_movieId s)) rows \<and>
           map s_movieId rows = map s_movieId (build_movie_stats (clean_ratings R)) \<and>
           (\<forall>row\<in>set (tbl_movies d).
              (\<forall>m\<in>set M. m_movieId m \<noteq> m_movieId row) \<longrightarrow> title row = None \<and> genres row = None) \<and>
           (\<forall>row\<in>set (tbl_movies d). \<forall>m.
              find (\<lambda>m. m_movieId m = m_movieId row) M = Some m \<longrightarrow> row = m) \<and>
           (\<forall>m\<in>set M. m_movieId m \<notin> (\<lambda>s. Some (s_movieId s)) ` set rows \<longrightarrow>
              m_movieId m \<notin> m_movieId ` set (tbl_movies d))"
proof -
  from main_Inr [OF assms] obtain R M rows where R: "ratings_csv fs = Some R"
    and M: "movies_csv fs = Some M"
    and rows: "snd (bayesian_weighted ((\<lambda>_. Stats []) (0 := Stats (build_movie_stats (clean_ratings R)))) 0 1000) 0
             = Scored rows"
    and st: "stats_rows (Scored rows) = build_movie_stats (clean_ratings R)"
    and mv: "tbl_movies d = map snd (merge_left rows (drop_duplicates_by m_movieId M))"
    and sc: "tbl_movie_scores d = map fst (merge_left rows (drop_duplicates_by m_movieId M))"
    by blast
  let ?M = "drop_duplicates_by m_movieId M"
  have dist: "distinct (map m_movieId ?M)"
    by (rule distinct_keys_drop_duplicates_by)
  have sub: "set ?M \<subseteq> set M"
    by (rule set_drop_duplicates_by)
  have 1: "tbl_movie_scores d = rows"
    by (simp add: sc merge_left_fst [OF dist])
  have 2: "map m_movieId (tbl_movies d) = map (\<lambda>s. Some (s_movieId s)) rows"
    using merge_left_keys [OF dist, of rows] by (simp add: mv comp_def)
  have 3: "map s_movieId rows = map s_movieId (build_movie_stats (clean_ratings R))"
    using arg_cong [OF st, of "map s_movieId"] by (simp add: comp_def)
  have 4: "title row = None \<and> genres row = None"
    if "row \<in> set (tbl_movies d)" and "\<forall>m\<in>set M. m_movieId m \<noteq> m_movieId row" for row
  proof -
    from that(1) obtain s where "(s, row) \<in> set (merge_left rows ?M)"
      by (auto simp: mv)
    from merge_left_member [OF this] that(2) sub show ?thesis by auto
  qed
  have 5: "row = m"
    if "row \<in> set (tbl_movies d)" and "find (\<lambda>m. m_movieId m = m_movieId row) M = Some m" for row m
  proof -
    from that(1) obtain s where s: "(s, row) \<in> set (merge_left rows ?M)"
      by (auto simp: mv)
    from that(2) have f: "find (\<lambda>m. m_movieId m = m_movieId row) ?M = Some m"
      by (simp add: find_drop_duplicates_by)
    then have "m \<in> set ?M" and "m_movieId m = m_movieId row"
      by (auto simp: find_Some_iff)
    with merge_left_member [OF s] have "row \<in> set ?M"
      by auto
    from find_distinct_member [OF dist this] f show ?thesis by simp
  qed
  have 6: "m_movieId m \<notin> m_movieId ` set (tbl_movies d)"
    if "m_movieId m \<notin> (\<lambda>s. Some (s_movieId s)) ` set rows" for m
  proof -
    have "m_movieId ` set (tbl_movies d) = set (map m_movieId (tbl_movies d))" by simp
    also have "\<dots> = (\<lambda>s. Some (s_movieId s)) ` set rows" by (simp only: 2 set_map)
    finally show ?thesis using that by simp
  qed
  from R M rows 1 2 3 4 5 6 show ?thesis by blast
qed

theorem catalog_left_join_witness:
  "main \<lparr>ratings_csv = Some
       [\<lparr>userId = Some 1, r_movieId = Some 1, rating = Some 4, timestamp = None\<rparr>],
     movies_csv = Some
       [\<lparr>m_movieId = Some 1, title = Some ''Toy Story (1995)'', genres = Some ''Animation''\<rparr>,
        \<lparr>m_movieId = Some 1, title = Some ''Toy Story'', genres = None\<rparr>,
        \<lparr>m_movieId = Some 7, title = Some ''Heat (1995)'', genres = Some ''Action''\<rparr>],
     schema_sql = True\<rparr>
   = Inr \<lparr>tbl_movies =
            [\<lparr>m_movieId = Some 1, title = Some ''Toy Story (1995)'', genres = Some ''Animation''\<rparr>],
          tbl_movie_scores =
            [\<lparr>s_movieId = 1, rating_count = 1, avg_rating = Some 4, weighted_rating = Some 4\<rparr>]\<rparr> \<and>
   map m_movieId (tbl_movies \<lparr>tbl_movies =
            [\<lparr>m_movieId = Some 1, title = Some ''Toy Story (1995)'', genres = Some ''Animation''\<rparr>],
          tbl_movie_scores =
            [\<lparr>s_movieId = 1, rating_count = 1, avg_rating = Some 4, weighted_rating = Some 4\<rparr>]\<rparr>)
     = map (\<lambda>s. Some (s_movieId s))
         [\<lparr>s_movieId = 1, rating_count = 1, avg_rating = Some 4, weighted_rating = Some 4\<rparr>]"
proof -
  have run: "main \<lparr>ratings_csv = Some
       [\<lparr>userId = Some 1, r_movieId = Some 1, rating = Some 4, timestamp = None\<rparr>],
     movies_csv = Some
       [\<lparr>m_movieId = Some 1, title = Some ''Toy Story (1995)'', genres = Some ''Animation''\<rparr>,
        \<lparr>m_movieId = Some 1, title = Some ''Toy Story'', genres = None\<rparr>,
        \<lparr>m_movieId = Some 7, title = Some ''Heat (1995)'', genres = Some ''Action''\<rparr>],
     schema_sql = True\<rparr>
   = Inr \<lparr>tbl_movies =
            [\<lparr>m_movieId = Some 1, title = Some ''Toy Story (1995)'', genres = Some ''Animation''\<rparr>],
          tbl_movie_scores =
            [\<lparr>s_movieId = 1, rating_count = 1, avg_rating = Some 4, weighted_rating = Some 4\<rparr>]\<rparr>"
    by (simp add: main_def clean_ratings_def drop_duplicates_def dropna_all_def
        dropna_subset_def all_na_def any_na_required_def rating_in_range_def
        build_movie_stats_def group_keys_def series_count_def series_mean_def map_filter_def
        bayesian_weighted_result set_weighted_rating_def weighted_value_def merge_left_def)
  from catalog_left_join [OF run] run show ?thesis by simp
qed

text \<open>
  The claim C2 fails for a movie that only the metadata has: with one rating of movie 1
  and a movies.csv that lists movie 7 only, the catalog has movie 1 (with null title and
  genres) and no row for movie 7.
\<close>

theorem catalog_omits_unrated_movie:
  "main \<lparr>ratings_csv = Some
       [\<lparr>userId = Some 1, r_movieId = Some 1, rating = Some 4, timestamp = None\<rparr>],
     movies_csv = Some
       [\<lparr>m_movieId = Some 7, title = Some ''Heat (1995)'', genres = Some ''Action''\<rparr>],
     schema_sql = True\<rparr>
   = Inr \<lparr>tbl_movies = [\<lparr>m_movieId = Some 1, title = None, genres = None\<rparr>],
          tbl_movie_scores =
            [\<lparr>s_movieId = 1, rating_count = 1, avg_rating = Some 4, weighted_rating = Some 4\<rparr>]\<rparr> \<and>
   Some 7 \<notin> set (map m_movieId [\<lparr>m_movieId = Some 1, title = None, genres = None\<rparr>]) \<and>
   7 \<notin> set (map s_movieId
      [\<lparr>s_movieId = 1, rating_count = 1, avg_rating = Some 4, weighted_rating = Some 4\<rparr>])"
  by (simp add: main_def clean_ratings_def drop_duplicates_def dropna_all_def
      dropna_subset_def all_na_def any_na_required_def rating_in_range_def
      build_movie_stats_def group_keys_def series_count_def series_mean_def map_filter_def
      bayesian_weighted_result set_weighted_rating_def weighted_value_def merge_left_def)

section \<open>Properties of the query interface\<close>

lemma set_order_by_desc: "set (order_by_desc key rows) = set rows"
  by (simp add: order_by_desc_def)

lemma length_order_by_desc: "length (order_by_desc key rows) = length rows"
  by (simp add: order_by_desc_def)

lemma sorted_order_by_desc:
  "sorted_wrt (\<lambda>a b. key b \<le> key a) (order_by_desc key rows)"
proof -
  have "sorted (map key (sort_key key (rev rows)))"
    by (rule sorted_sort_key)
  then have "sorted_wrt (\<lambda>a b. key a \<le> key b) (sort_key key (rev rows))"
    by (simp add: sorted_map)
  then show ?thesis
    by (simp add: order_by_desc_def sorted_wrt_rev)
qed

lemma sorted_wrt_sql_limit: "sorted_wrt P rows \<Longrightarrow> sorted_wrt P (sql_limit n rows)"
  by (simp add: sql_limit_def sorted_wrt_take)

lemma set_sql_limit: "set (sql_limit n rows) \<subseteq> set rows"
  by (auto simp: sql_limit_def dest: in_set_takeD)

lemma select_ranked_cond: "it \<in> set (select_ranked conn cond k) \<Longrightarrow> cond it"
  using set_sql_limit [of k "order_by_desc (\<lambda>it. weighted_rating (fst it)) (filter cond (join_scores_movies conn))"]
  by (auto simp: select_ranked_def set_order_by_desc)

lemma select_ranked_sorted:
  "sorted_wrt (\<lambda>a b. weighted_rating (fst b) \<le> weighted_rating (fst a)) (select_ranked conn cond k)"
  unfolding select_ranked_def
  by (intro sorted_wrt_sql_limit) (rule sorted_order_by_desc)

lemma recommendations_Inr:
  assumes "recommendations store mood k min_count = Inr r"
  shows "\<exists>conn. store = Some conn \<and>
           resp_genres_filter r =
             (case map_of MOOD_TO_GENRES (strip (lower mood)) of None \<Rightarrow> [] | Some gs \<Rightarrow> gs) \<and>
           resp_items r = select_ranked conn
             (\<lambda>it. min_count \<le> rating_count (fst it) \<and>
                   (resp_genres_filter r = [] \<or>
                    list_ex (\<lambda>g. sql_like_null (''%'' @ g @ ''%'') (genres (snd it)))
                      (resp_genres_filter r))) k"
proof -
  define gs where "gs = (case map_of MOOD_TO_GENRES (strip (lower mood)) of None \<Rightarrow> [] | Some gs \<Rightarrow> gs)"
  define rows where "rows conn =
     (if gs = [] then select_ranked conn (\<lambda>it. min_count \<le> rating_count (fst it)) k
      else select_ranked conn
             (\<lambda>it. min_count \<le> rating_count (fst it) \<and>
                   list_ex (\<lambda>g. sql_like_null (''%'' @ g @ ''%'') (genres (snd it))) gs) k)" for conn
  have unfold: "recommendations st mood k min_count =
     (case get_conn st of
        Inl e \<Rightarrow> Inl e
      | Inr conn \<Rightarrow>
          if \<not> (fits_int64 min_count \<and> fits_int64 k) then Inl OverflowError
          else Inr \<lparr>resp_mood = strip (lower mood), resp_genres_filter = gs, resp_k = k,
                    resp_min_count = min_count, resp_items = rows conn\<rparr>)"
    for st unfolding recommendations_def Let_def gs_def rows_def ..
  obtain conn where conn: "store = Some conn"
    using assms by (cases store) (simp_all add: unfold get_conn_def)
  have r: "r = \<lparr>resp_mood = strip (lower mood), resp_genres_filter = gs, resp_k = k,
                resp_min_count = min_count, resp_items = rows conn\<rparr>"
    using assms by (simp add: conn unfold get_conn_def split: if_splits)
  have "rows conn = select_ranked conn
             (\<lambda>it. min_count \<le> rating_count (fst it) \<and>
                   (gs = [] \<or> list_ex (\<lambda>g. sql_like_null (''%'' @ g @ ''%'') (genres (snd it))) gs)) k"
    unfolding rows_def by (cases "gs = []") simp_all
  then show ?thesis
    using conn by (simp add: r gs_def)
qed

text \<open>
  C8, as the code has it. For a call of \<open>recommendations\<close> that returns: the eligible
  entries are the joined rows with \<open>rating_count \<ge> min_count\<close> that pass the genre filter
  of the response (if it has one), ranked by \<open>weighted_rating\<close> descending. Every returned
  item has \<open>rating_count \<ge> min_count\<close>; the items are in descending order of
  \<open>weighted_rating\<close>; for \<open>k \<ge> 0\<close> they are the first \<open>k\<close> ranked entries, \<open>min k n\<close>
  many of \<open>n\<close> eligible ones (3 of 10 for \<open>k = 3\<close>); for a negative \<open>k\<close> the LIMIT clause
  bounds nothing and all ranked entries are returned.
\<close>

theorem recommendations_ranked:
  assumes "recommendations store mood k min_count = Inr r"
  shows "\<exists>conn. store = Some conn \<and>
     (let eligible = filter
            (\<lambda>it. min_count \<le> rating_count (fst it) \<and>
                  (resp_genres_filter r = [] \<or>
                   list_ex (\<lambda>g. sql_like_null (''%'' @ g @ ''%'') (genres (snd it)))
                     (resp_genres_filter r)))
            (join_scores_movies conn);
          ranked = order_by_desc (\<lambda>it. weighted_rating (fst it)) eligible
      in (\<forall>it\<in>set (resp_items r). min_count \<le> rating_count (fst it)) \<and>
         sorted_wrt (\<lambda>a b. weighted_rating (fst b) \<le> weighted_rating (fst a)) (resp_items r) \<and>
         (0 \<le> k \<longrightarrow> resp_items r = take (nat k) ranked \<and>
                     length (resp_items r) = min (nat k) (length eligible)) \<and>
         (k < 0 \<longrightarrow> resp_items r = ranked))"
proof -
  from recommendations_Inr [OF assms] obtain conn where conn: "store = Some conn"
    and items: "resp_items r = select_ranked conn
             (\<lambda>it. min_count \<le> rating_count (fst it) \<and>
                   (resp_genres_filter r = [] \<or>
                    list_ex (\<lambda>g. sql_like_null (''%'' @ g @ ''%'') (genres (snd it)))
                      (resp_genres_filter r))) k"
    by blast
  have 1: "\<forall>it\<in>set (resp_items r). min_count \<le> rating_count (fst it)"
    unfolding items by (auto dest: select_ranked_cond)
  have 2: "sorted_wrt (\<lambda>a b. weighted_rating (fst b) \<le> weighted_rating (fst a)) (resp_items r)"
    unfolding items by (rule select_ranked_sorted)
  define eligible where "eligible = filter
            (\<lambda>it. min_count \<le> rating_count (fst it) \<and>
                  (resp_genres_filter r = [] \<or>
                   list_ex (\<lambda>g. sql_like_null (''%'' @ g @ ''%'') (genres (snd it)))
                     (resp_genres_filter r)))
            (join_scores_movies conn)"
  define ranked where "ranked = order_by_desc (\<lambda>it. weighted_rating (fst it)) eligible"
  have lim: "resp_items r = sql_limit k ranked"
    unfolding items select_ranked_def ranked_def eligible_def ..
  have len: "length ranked = length eligible"
    unfolding ranked_def by (rule length_order_by_desc)
  have 3: "0 \<le> k \<longrightarrow> resp_items r = take (nat k) ranked \<and>
                     length (resp_items r) = min (nat k) (length eligible)"
    unfolding lim sql_limit_def using len by (simp add: min_def)
  have 4: "k < 0 \<longrightarrow> resp_items r = ranked"
    unfolding lim sql_limit_def by simp
  have "(\<forall>it\<in>set (resp_items r). min_count \<le> rating_count (fst it)) \<and>
         sorted_wrt (\<lambda>a b. weighted_rating (fst b) \<le> weighted_rating (fst a)) (resp_items r) \<and>
         (0 \<le> k \<longrightarrow> resp_items r = take (nat k) ranked \<and>
                     length (resp_items r) = min (nat k) (length eligible)) \<and>
         (k < 0 \<longrightarrow> resp_items r = ranked)"
    using 1 2 3 4 by blast
  then show ?thesis
    unfolding Let_def ranked_def eligible_def using conn by blast
qed

theorem recommendations_ranked_witness:
  "recommendations (Some \<lparr>tbl_movies = map (\<lambda>i. \<lparr>m_movieId = Some i, title = Some ''Movie'', genres = Some ''Drama''\<rparr>)
                [0, 1, 2, 3, 4, 5, 6, 7, 8, 9, 10],
            tbl_movie_scores = map (\<lambda>i. \<lparr>s_movieId = i, rating_count = 49 + i, avg_rating = Some 4,
                weighted_rating = Some (of_int i / 4)\<rparr>) [0, 1, 2, 3, 4, 5, 6, 7, 8, 9, 10]\<rparr>) ''melancholy'' 3 50
   = Inr \<lparr>resp_mood = ''melancholy'', resp_genres_filter = [], resp_k = 3, resp_min_count = 50,
          resp_items =
            [(\<lparr>s_movieId = 10, rating_count = 59, avg_rating = Some 4, weighted_rating = Some (5 / 2)\<rparr>,
              \<lparr>m_movieId = Some 10, title = Some ''Movie'', genres = Some ''Drama''\<rparr>),
             (\<lparr>s_movieId = 9, rating_count = 58, avg_rating = Some 4, weighted_rating = Some (9 / 4)\<rparr>,
              \<lparr>m_movieId = Some 9, title = Some ''Movie'', genres = Some ''Drama''\<rparr>),
             (\<lparr>s_movieId = 8, rating_count = 57, avg_rating = Some 4, weighted_rating = Some 2\<rparr>,
              \<lparr>m_movieId = Some 8, title = Some ''Movie'', genres = Some ''Drama''\<rparr>)]\<rparr> \<and>
   length (filter (\<lambda>it. 50 \<le> rating_count (fst it)) (join_scores_movies \<lparr>tbl_movies = map (\<lambda>i. \<lparr>m_movieId = Some i, title = Some ''Movie'', genres = Some ''Drama''\<rparr>)
                [0, 1, 2, 3, 4, 5, 6, 7, 8, 9, 10],
            tbl_movie_scores = map (\<lambda>i. \<lparr>s_movieId = i, rating_count = 49 + i, avg_rating = Some 4,
                weighted_rating = Some (of_int i / 4)\<rparr>) [0, 1, 2, 3, 4, 5, 6, 7, 8, 9, 10]\<rparr>)) = 10 \<and>
   length (resp_items \<lparr>resp_mood = ''melancholy'', resp_genres_filter = [], resp_k = 3, resp_min_count = 50,
          resp_items =
            [(\<lparr>s_movieId = 10, rating_count = 59, avg_rating = Some 4, weighted_rating = Some (5 / 2)\<rparr>,
              \<lparr>m_movieId = Some 10, title = Some ''Movie'', genres = Some ''Drama''\<rparr>),
             (\<lparr>s_movieId = 9, rating_count = 58, avg_rating = Some 4, weighted_rating = Some (9 / 4)\<rparr>,
              \<lparr>m_movieId = Some 9, title = Some ''Movie'', genres = Some ''Drama''\<rparr>),
             (\<lparr>s_movieId = 8, rating_count = 57, avg_rating = Some 4, weighted_rating = Some 2\<rparr>,
              \<lparr>m_movieId = Some 8, title = Some ''Movie'', genres = Some ''Drama''\<rparr>)]\<rparr>) = 3"
proof -
  have run: "recommendations (Some \<lparr>tbl_movies = map (\<lambda>i. \<lparr>m_movieId = Some i, title = Some ''Movie'', genres = Some ''Drama''\<rparr>)
                [0, 1, 2, 3, 4, 5, 6, 7, 8, 9, 10],
            tbl_movie_scores = map (\<lambda>i. \<lparr>s_movieId = i, rating_count = 49 + i, avg_rating = Some 4,
                weighted_rating = Some (of_int i / 4)\<rparr>) [0, 1, 2, 3, 4, 5, 6, 7, 8, 9, 10]\<rparr>) ''melancholy'' 3 50
   = Inr \<lparr>resp_mood = ''melancholy'', resp_genres_filter = [], resp_k = 3, resp_min_count = 50,
          resp_items =
            [(\<lparr>s_movieId = 10, rating_count = 59, avg_rating = Some 4, weighted_rating = Some (5 / 2)\<rparr>,
              \<lparr>m_movieId = Some 10, title = Some ''Movie'', genres = Some ''Drama''\<rparr>),
             (\<lparr>s_movieId = 9, rating_count = 58, avg_rating = Some 4, weighted_rating = Some (9 / 4)\<rparr>,
              \<lparr>m_movieId = Some 9, title = Some ''Movie'', genres = Some ''Drama''\<rparr>),
             (\<lparr>s_movieId = 8, rating_count = 57, avg_rating = Some 4, weighted_rating = Some 2\<rparr>,
              \<lparr>m_movieId = Some 8, title = Some ''Movie'', genres = Some ''Drama''\<rparr>)]\<rparr>"
    by (simp add: recommendations_def get_conn_def fits_int64_def MOOD_TO_GENRES_def strip_def
      lower_def lower_char_def isspace_def select_ranked_def sql_limit_def order_by_desc_def
      join_scores_movies_def sql_like_null_def)
  have ten: "length (filter (\<lambda>it. 50 \<le> rating_count (fst it)) (join_scores_movies \<lparr>tbl_movies = map (\<lambda>i. \<lparr>m_movieId = Some i, title = Some ''Movie'', genres = Some ''Drama''\<rparr>)
                [0, 1, 2, 3, 4, 5, 6, 7, 8, 9, 10],
            tbl_movie_scores = map (\<lambda>i. \<lparr>s_movieId = i, rating_count = 49 + i, avg_rating = Some 4,
                weighted_rating = Some (of_int i / 4)\<rparr>) [0, 1, 2, 3, 4, 5, 6, 7, 8, 9, 10]\<rparr>)) = 10"
    by (simp add: join_scores_movies_def)
  from recommendations_ranked [OF run]
  have three: "length (resp_items \<lparr>resp_mood = ''melancholy'', resp_genres_filter = [], resp_k = 3, resp_min_count = 50,
          resp_items =
            [(\<lparr>s_movieId = 10, rating_count = 59, avg_rating = Some 4, weighted_rating = Some (5 / 2)\<rparr>,
              \<lparr>m_movieId = Some 10, title = Some ''Movie'', genres = Some ''Drama''\<rparr>),
             (\<lparr>s_movieId = 9, rating_count = 58, avg_rating = Some 4, weighted_rating = Some (9 / 4)\<rparr>,
              \<lparr>m_movieId = Some 9, title = Some ''Movie'', genres = Some ''Drama''\<rparr>),
             (\<lparr>s_movieId = 8, rating_count = 57, avg_rating = Some 4, weighted_rating = Some 2\<rparr>,
              \<lparr>m_movieId = Some 8, title = Some ''Movie'', genres = Some ''Drama''\<rparr>)]\<rparr>) = 3"
    by (simp add: Let_def join_scores_movies_def order_by_desc_def)
  from run ten three show ?thesis by (intro conjI)
qed

text \<open>
  The claim C8 fails at \<open>k = -1\<close>: the result is not cut to the first \<open>k\<close> entries, both
  eligible entries are returned.
\<close>

theorem recommendations_negative_k_unbounded:
  "recommendations (Some \<lparr>tbl_movies =
              [\<lparr>m_movieId = Some 1, title = Some ''Heat (1995)'', genres = Some ''Action|Crime''\<rparr>,
               \<lparr>m_movieId = Some 2, title = Some ''Casablanca (1942)'', genres = Some ''Drama|Romance''\<rparr>,
               \<lparr>m_movieId = Some 3, title = Some ''Brief Encounter (1945)'', genres = Some ''Romance''\<rparr>],
            tbl_movie_scores =
              [\<lparr>s_movieId = 1, rating_count = 90, avg_rating = Some 4, weighted_rating = Some 4\<rparr>,
               \<lparr>s_movieId = 2, rating_count = 80, avg_rating = Some 4, weighted_rating = Some (7 / 2)\<rparr>,
               \<lparr>s_movieId = 3, rating_count = 70, avg_rating = Some 4, weighted_rating = Some (15 / 4)\<rparr>]\<rparr>) ''Calm '' (- 1) 50
   = Inr \<lparr>resp_mood = ''calm'', resp_genres_filter = [''Drama'', ''Romance''], resp_k = - 1,
          resp_min_count = 50, resp_items = [(\<lparr>s_movieId = 3, rating_count = 70, avg_rating = Some 4, weighted_rating = Some (15 / 4)\<rparr>,
              \<lparr>m_movieId = Some 3, title = Some ''Brief Encounter (1945)'', genres = Some ''Romance''\<rparr>),
             (\<lparr>s_movieId = 2, rating_count = 80, avg_rating = Some 4, weighted_rating = Some (7 / 2)\<rparr>,
              \<lparr>m_movieId = Some 2, title = Some ''Casablanca (1942)'', genres = Some ''Drama|Romance''\<rparr>)]\<rparr> \<and>
   \<not> int (length [(\<lparr>s_movieId = 3, rating_count = 70, avg_rating = Some 4, weighted_rating = Some (15 / 4)\<rparr>,
              \<lparr>m_movieId = Some 3, title = Some ''Brief Encounter (1945)'', genres = Some ''Romance''\<rparr>),
             (\<lparr>s_movieId = 2, rating_count = 80, avg_rating = Some 4, weighted_rating = Some (7 / 2)\<rparr>,
              \<lparr>m_movieId = Some 2, title = Some ''Casablanca (1942)'', genres = Some ''Drama|Romance''\<rparr>)]) \<le> - 1"
  by (simp add: recommendations_def get_conn_def fits_int64_def MOOD_TO_GENRES_def strip_def
      lower_def lower_char_def isspace_def select_ranked_def sql_limit_def order_by_desc_def
      join_scores_movies_def sql_like_null_def)

lemma sql_like_percent: "sql_like ''%'' t"
  by (induction t) simp_all

lemma sql_like_percent_percent: "sql_like ''%%'' t"
  by (induction t) (simp_all add: sql_like_percent)

lemma strip_blank:
  assumes "\<forall>c\<in>set query. isspace c"
  shows "strip query = []"
proof -
  from assms have d: "dropWhile isspace query = []"
    by (induction query) simp_all
  show ?thesis unfolding strip_def d by simp
qed

text \<open>
  C10, as the code has it. For an empty or whitespace-only query (of at most 80
  characters) the pattern is \<open>%%\<close>, which matches every title; a row whose title is NULL
  has no title to match and is never returned. The search returns the first \<open>limit\<close>
  rows among those of the \<open>movies\<close> table with a title: the first \<open>limit\<close> rows of the
  table when every row has a title and \<open>limit \<ge> 0\<close>, and every row with a title when
  \<open>limit\<close> is negative.
\<close>

theorem titles_blank_query:
  assumes "\<forall>c\<in>set query. isspace c" and "length query \<le> 80" and "fits_int64 limit"
  shows "''%'' @ strip query @ ''%'' = ''%%'' \<and> (\<forall>t. sql_like ''%%'' t) \<and>
         titles (Some conn) query limit =
           Inr (sql_limit limit (filter (\<lambda>m. title m \<noteq> None) (tbl_movies conn))) \<and>
         (0 \<le> limit \<and> (\<forall>m\<in>set (tbl_movies conn). title m \<noteq> None) \<longrightarrow>
            titles (Some conn) query limit = Inr (take (nat limit) (tbl_movies conn))) \<and>
         (limit < 0 \<longrightarrow>
            titles (Some conn) query limit = Inr (filter (\<lambda>m. title m \<noteq> None) (tbl_movies conn)))"
proof -
  have q: "''%'' @ strip query @ ''%'' = ''%%''"
    using assms(1) by (simp add: strip_blank)
  have like: "sql_like_null ''%%'' x = (x \<noteq> None)" for x
    by (cases x) (simp_all add: sql_like_null_def sql_like_percent_percent)
  have run: "titles (Some conn) query limit =
           Inr (sql_limit limit (filter (\<lambda>m. title m \<noteq> None) (tbl_movies conn)))"
    using assms(2,3) unfolding titles_def Let_def q by (simp add: get_conn_def like)
  have all: "filter (\<lambda>m. title m \<noteq> None) (tbl_movies conn) = tbl_movies conn"
    if "\<forall>m\<in>set (tbl_movies conn). title m \<noteq> None"
    using that by (simp add: filter_id_conv)
  from q run all show ?thesis
    by (simp add: sql_like_percent_percent sql_limit_def)
qed

theorem titles_blank_query_witness:
  "length ''  '' \<le> 80 \<and> fits_int64 1 \<and> strip ''  '' = [] \<and>
   titles (Some \<lparr>tbl_movies =
            [\<lparr>m_movieId = Some 1, title = None, genres = None\<rparr>,
             \<lparr>m_movieId = Some 2, title = Some ''Heat (1995)'', genres = Some ''Action''\<rparr>],
          tbl_movie_scores =
            [\<lparr>s_movieId = 1, rating_count = 1, avg_rating = Some 4, weighted_rating = Some 4\<rparr>,
             \<lparr>s_movieId = 2, rating_count = 1, avg_rating = Some 4, weighted_rating = Some 4\<rparr>]\<rparr>) ''  '' 1
   = Inr [\<lparr>m_movieId = Some 2, title = Some ''Heat (1995)'', genres = Some ''Action''\<rparr>]"
proof -
  have sp: "\<forall>c\<in>set ''  ''. isspace c"
    by (simp add: isspace_def)
  have len: "length ''  '' \<le> 80" and fits: "fits_int64 1"
    by (simp_all add: fits_int64_def)
  from titles_blank_query [OF sp len fits, of "\<lparr>tbl_movies =
            [\<lparr>m_movieId = Some 1, title = None, genres = None\<rparr>,
             \<lparr>m_movieId = Some 2, title = Some ''Heat (1995)'', genres = Some ''Action''\<rparr>],
          tbl_movie_scores =
            [\<lparr>s_movieId = 1, rating_count = 1, avg_rating = Some 4, weighted_rating = Some 4\<rparr>,
             \<lparr>s_movieId = 2, rating_count = 1, avg_rating = Some 4, weighted_rating = Some 4\<rparr>]\<rparr>"] len fits
  show ?thesis by (simp add: sql_limit_def strip_def isspace_def)
qed

text \<open>
  The claim C10 fails on a catalog that the build itself writes: movie 1 has ratings and
  no metadata, so its title is NULL; the empty query with \<open>limit = 1\<close> returns the row of
  movie 2, which is not the first row of the table.
\<close>

theorem titles_blank_query_skips_null_title:
  "main \<lparr>ratings_csv = Some
       [\<lparr>userId = Some 1, r_movieId = Some 1, rating = Some 4, timestamp = None\<rparr>,
        \<lparr>userId = Some 1, r_movieId = Some 2, rating = Some 4, timestamp = None\<rparr>],
     movies_csv = Some
       [\<lparr>m_movieId = Some 2, title = Some ''Heat (1995)'', genres = Some ''Action''\<rparr>],
     schema_sql = True\<rparr>
   = Inr \<lparr>tbl_movies =
            [\<lparr>m_movieId = Some 1, title = None, genres = None\<rparr>,
             \<lparr>m_movieId = Some 2, title = Some ''Heat (1995)'', genres = Some ''Action''\<rparr>],
          tbl_movie_scores =
            [\<lparr>s_movieId = 1, rating_count = 1, avg_rating = Some 4, weighted_rating = Some 4\<rparr>,
             \<lparr>s_movieId = 2, rating_count = 1, avg_rating = Some 4, weighted_rating = Some 4\<rparr>]\<rparr> \<and>
   titles (Some \<lparr>tbl_movies =
            [\<lparr>m_movieId = Some 1, title = None, genres = None\<rparr>,
             \<lparr>m_movieId = Some 2, title = Some ''Heat (1995)'', genres = Some ''Action''\<rparr>],
          tbl_movie_scores =
            [\<lparr>s_movieId = 1, rating_count = 1, avg_rating = Some 4, weighted_rating = Some 4\<rparr>,
             \<lparr>s_movieId = 2, rating_count = 1, avg_rating = Some 4, weighted_rating = Some 4\<rparr>]\<rparr>) [] 1
   = Inr [\<lparr>m_movieId = Some 2, title = Some ''Heat (1995)'', genres = Some ''Action''\<rparr>] \<and>
   take 1 (tbl_movies \<lparr>tbl_movies =
            [\<lparr>m_movieId = Some 1, title = None, genres = None\<rparr>,
             \<lparr>m_movieId = Some 2, title = Some ''Heat (1995)'', genres = Some ''Action''\<rparr>],
          tbl_movie_scores =
            [\<lparr>s_movieId = 1, rating_count = 1, avg_rating = Some 4, weighted_rating = Some 4\<rparr>,
             \<lparr>s_movieId = 2, rating_count = 1, avg_rating = Some 4, weighted_rating = Some 4\<rparr>]\<rparr>)
   = [\<lparr>m_movieId = Some 1, title = None, genres = None\<rparr>]"
proof -
  have "main \<lparr>ratings_csv = Some
       [\<lparr>userId = Some 1, r_movieId = Some 1, rating = Some 4, timestamp = None\<rparr>,
        \<lparr>userId = Some 1, r_movieId = Some 2, rating = Some 4, timestamp = None\<rparr>],
     movies_csv = Some
       [\<lparr>m_movieId = Some 2, title = Some ''Heat (1995)'', genres = Some ''Action''\<rparr>],
     schema_sql = True\<rparr>
   = Inr \<lparr>tbl_movies =
            [\<lparr>m_movieId = Some 1, title = None, genres = None\<rparr>,
             \<lparr>m_movieId = Some 2, title = Some ''Heat (1995)'', genres = Some ''Action''\<rparr>],
          tbl_movie_scores =
            [\<lparr>s_movieId = 1, rating_count = 1, avg_rating = Some 4, weighted_rating = Some 4\<rparr>,
             \<lparr>s_movieId = 2, rating_count = 1, avg_rating = Some 4, weighted_rating = Some 4\<rparr>]\<rparr>"
    by (simp add: main_def clean_ratings_def drop_duplicates_def dropna_all_def
      dropna_subset_def all_na_def any_na_required_def rating_in_range_def
      build_movie_stats_def group_keys_def series_count_def series_mean_def map_filter_def
      bayesian_weighted_result set_weighted_rating_def weighted_value_def merge_left_def)
  moreover have "titles (Some \<lparr>tbl_movies =
            [\<lparr>m_movieId = Some 1, title = None, genres = None\<rparr>,
             \<lparr>m_movieId = Some 2, title = Some ''Heat (1995)'', genres = Some ''Action''\<rparr>],
          tbl_movie_scores =
            [\<lparr>s_movieId = 1, rating_count = 1, avg_rating = Some 4, weighted_rating = Some 4\<rparr>,
             \<lparr>s_movieId = 2, rating_count = 1, avg_rating = Some 4, weighted_rating = Some 4\<rparr>]\<rparr>) [] 1
   = Inr [\<lparr>m_movieId = Some 2, title = Some ''Heat (1995)'', genres = Some ''Action''\<rparr>]"
    by (simp add: titles_def get_conn_def fits_int64_def strip_def sql_limit_def
        sql_like_null_def lower_char_def)
  ultimately show ?thesis by simp
qed

end
